theory Spec2Isabelle
  imports Main
begin

section \<open>The association store: data model\<close>

text \<open>
  The repository's one module, \<^verbatim>\<open>context/StoreContext.tsx\<close>, exists in two versions:
  a provider that keeps everything in memory (the mock provider) and a provider that
  mirrors a remote store reached through the Supabase client. Both are embedded here;
  the functions of the in-memory provider carry the suffix \<open>_mock\<close>.

  JavaScript numbers (amounts, balances) are kept as a type parameter \<open>'n\<close>; the only
  operations the module applies to them are \<open>0\<close> and \<open>+\<close>.
\<close>

text \<open>
  Modelled from the spec: the declarations of \<^verbatim>\<open>../types\<close> are not among the sources.
  The enumerations below are the ones the spec's data model lists (transaction type
  INCOME | EXPENSE, status PENDING | APPROVED | REJECTED, role TRESORIER | PRESIDENT |
  MEMBRE) and the ones the module names (\<^verbatim>\<open>Gender.MALE\<close>, \<^verbatim>\<open>Gender.FEMALE\<close>); the record
  fields are the ones the module reads and writes. Sector, Level and ExpenseCategory are
  string enumerations whose values the module never inspects; they are kept as strings.
\<close>

datatype TransactionType = INCOME | EXPENSE

datatype Status = PENDING | APPROVED | REJECTED

datatype UserRole = TRESORIER | PRESIDENT | MEMBRE

datatype Gender = MALE | FEMALE

text \<open>
  \<^verbatim>\<open>Omit<Transaction, 'id' | 'status' | 'signature'>\<close>: the argument of addTransaction.
  Fields \<^verbatim>\<open>type\<close>, \<^verbatim>\<open>category\<close> and \<^verbatim>\<open>function\<close> are written \<open>tx_type\<close>, \<open>tx_category\<close>
  and \<open>tx_function\<close>. An optional field is an \<open>option\<close> (\<open>None\<close> for undefined or null).
\<close>

record 'n TransactionInput =
  tx_type :: TransactionType
  tx_category :: string
  amount :: 'n
  date :: string
  description :: string
  performedBy :: string
  matricule :: string
  tx_function :: string
  responsible :: string
  receiptNumber :: "string option"
  proofUrl :: "string option"

record 'n Transaction = "'n TransactionInput" +
  tx_id :: string
  status :: Status
  signature :: string

record 'n Budget =
  bg_id :: string
  bg_category :: string
  allocatedAmount :: 'n
  spentAmount :: 'n
  year :: int

section \<open>The derived aggregator: budget consumption\<close>

text \<open>
  Both providers hold the same effect:
  \<^verbatim>\<open>
  const newBudgets = budgets.map(b => {
    const spent = transactions
      .filter(t => t.type === TransactionType.EXPENSE && t.category === b.category
                   && t.status === 'APPROVED')
      .reduce((acc, t) => acc + t.amount, 0);
    return { ...b, spentAmount: spent };
  });
  \<close>
  \<open>reduce\<close> is a left fold from \<open>0\<close>.
\<close>

definition spent :: "('n::{zero,plus}) Transaction list \<Rightarrow> 'n Budget \<Rightarrow> 'n" where
  "spent ts b =
     foldl (\<lambda>acc t. acc + amount t) 0
       (filter (\<lambda>t. tx_type t = EXPENSE \<and> tx_category t = bg_category b \<and> status t = APPROVED) ts)"

definition recompute :: "('n::{zero,plus}) Transaction list \<Rightarrow> 'n Budget list \<Rightarrow> 'n Budget list" where
  "recompute ts bs = map (\<lambda>b. b\<lparr>spentAmount := spent ts b\<rparr>) bs"

section \<open>The rest of the data model\<close>

text \<open>
  \<^verbatim>\<open>Omit<Member, 'id' | 'uniqueId'>\<close> is the argument of addMember; a Member adds the
  two identifiers.
\<close>

record 'n MemberInput =
  dossierNumber :: string
  ine :: string
  firstName :: string
  lastName :: string
  dob :: string
  sector :: string
  level :: string
  gender :: Gender
  balance :: 'n

record 'n Member = "'n MemberInput" +
  mb_id :: string
  uniqueId :: string

record AppSettings =
  associationName :: string
  currency :: string
  logoUrl :: string

record User =
  email :: string
  name :: string
  role :: UserRole
  memberId :: "string option"

text \<open>
  A JSON value, as \<^verbatim>\<open>JSON.parse\<close> returns it and as a remote column can hold it. A
  number is kept as a decimal \<open>m * 10 ^ e\<close>.
\<close>

datatype json =
    JNull
  | JBool bool
  | JNum int int
  | JStr string
  | JArr "json list"
  | JObj "(string \<times> json) list"

text \<open>
  The message's \<^verbatim>\<open>memberInfo\<close> is declared \<^verbatim>\<open>{ sector, level }\<close>, but mapMessage stores
  whatever the parse returns: the field holds any JSON value, or \<open>None\<close> for undefined.
\<close>

record CommunityMessage =
  msg_id :: string
  userId :: string
  userName :: string
  userRole :: UserRole
  memberInfo :: "json option"
  content :: string
  timestamp :: string

text \<open>
  The state the provider holds in \<^verbatim>\<open>useState\<close> cells. The in-memory provider has the first
  six; the remote provider adds \<^verbatim>\<open>isLoading\<close>.
\<close>

record 'n cache =
  user :: "User option"
  transactions :: "'n Transaction list"
  members :: "'n Member list"
  budgets :: "'n Budget list"
  messages :: "CommunityMessage list"
  settings :: AppSettings

record 'n store = "'n cache" +
  isLoading :: bool

subsection \<open>Remote rows\<close>

text \<open>
  The rows of the remote collections, with the remote (snake case) column names; a column
  whose name a record above already uses carries the collection's initial. A row a select
  returns is the columns an insert sends plus the identifier the store assigned.
\<close>

record 'n transactions_cols =
  t_type :: TransactionType
  t_category :: string
  t_amount :: 'n
  t_date :: string
  t_description :: string
  performed_by :: string
  t_matricule :: string
  t_function :: string
  receipt_number :: "string option"
  t_status :: Status
  t_responsible :: string
  t_signature :: string
  proof_url :: "string option"

record 'n transactions_row = "'n transactions_cols" +
  t_id :: string

record 'n members_cols =
  unique_id :: string
  first_name :: string
  last_name :: string
  m_dob :: string
  m_sector :: string
  m_level :: string
  m_gender :: Gender
  dossier_number :: string
  m_ine :: string
  m_balance :: 'n

record 'n members_row = "'n members_cols" +
  m_id :: string

record 'n budgets_cols =
  b_category :: string
  allocated_amount :: 'n
  b_year :: int

record 'n budgets_row = "'n budgets_cols" +
  b_id :: string

record messages_cols =
  user_id :: string
  user_name :: string
  user_role :: UserRole
  member_info_json :: json
  c_content :: string

record messages_row = messages_cols +
  c_id :: string
  created_at :: string

record settings_cols =
  association_name :: string
  s_currency :: string
  logo_url :: "string option"

record users_row =
  u_email :: string
  password :: string
  u_name :: string
  u_role :: UserRole
  member_id :: "string option"

subsection \<open>Requests and responses\<close>

text \<open>
  One constructor for each call chain the module builds on the Supabase client:
  \<^item> \<open>Users_select_single e p\<close>:
    \<^verbatim>\<open>from('users').select('*').eq('email', e).eq('password', p).single()\<close>
  \<^item> \<open>Transactions_insert r\<close>: \<^verbatim>\<open>from('transactions').insert([r]).select()\<close>
  \<^item> \<open>Transactions_update_status st i\<close>:
    \<^verbatim>\<open>from('transactions').update({ status: st }).eq('id', i)\<close>
  \<^item> \<open>Transactions_delete i\<close>: \<^verbatim>\<open>from('transactions').delete().eq('id', i)\<close>
  \<^item> \<open>Members_insert r\<close>, \<open>Members_delete i\<close>, \<open>Messages_insert r\<close>, \<open>Messages_delete i\<close>,
    \<open>Budgets_insert r\<close>: likewise
  \<^item> \<open>Budgets_update_allocated a i\<close>:
    \<^verbatim>\<open>from('budgets').update({ allocated_amount: a }).eq('id', i)\<close>
  \<^item> \<open>Settings_update r\<close>: \<^verbatim>\<open>from('settings').update(r).eq('id', 1)\<close>
  \<^item> the five selects of fetchData.
\<close>

datatype 'n request =
    Users_select_single string string
  | Transactions_insert "'n transactions_cols"
  | Transactions_update_status Status string
  | Transactions_delete string
  | Members_insert "'n members_cols"
  | Members_delete string
  | Budgets_insert "'n budgets_cols"
  | Budgets_update_allocated 'n string
  | Settings_update settings_cols
  | Messages_insert messages_cols
  | Messages_delete string
  | Members_select
  | Transactions_select
  | Budgets_select
  | Messages_select
  | Settings_select

text \<open>
  What awaiting a call yields: the promise is rejected (\<open>Rejected\<close>, the \<^verbatim>\<open>await\<close> throws),
  or it resolves to \<^verbatim>\<open>{ data: null, error }\<close> (\<open>Failure\<close>, with the error's message), or to
  \<^verbatim>\<open>{ data, error: null }\<close> (\<open>Success\<close>). The client's response type is the union of the
  last two, so data and error are never both set.
\<close>

datatype 'a response = Rejected | Failure string | Success 'a

text \<open>
  An entry point either completes with the new state or ends in an exception; no entry
  point writes a state cell before its \<^verbatim>\<open>await\<close>, so an exception leaves the state it
  started from. \<open>RemoteError\<close> is the rejection of the awaited call, \<open>TypeError\<close> the read
  of a field of \<^verbatim>\<open>data[0]\<close> when \<^verbatim>\<open>data\<close> is empty, \<open>SyntaxError\<close> what \<^verbatim>\<open>JSON.parse\<close>
  throws.
\<close>

datatype exn = RemoteError | TypeError | SyntaxError

type_synonym 'n run = "'n request list \<times> (exn + 'n store)"

section \<open>Strings, numbers and JSON\<close>

text \<open>
  The built-ins the module calls. \<^verbatim>\<open>id.startsWith('b-')\<close>; the decimal numeral a template
  literal prints for an integer (\<^verbatim>\<open>`REC-${Date.now()}`\<close>).
\<close>

definition startsWith :: "string \<Rightarrow> string \<Rightarrow> bool" where
  "startsWith s p = (take (length p) s = p)"

definition digit_char :: "nat \<Rightarrow> char" where
  "digit_char d = ''0123456789'' ! d"

fun show_nat :: "nat \<Rightarrow> string" where
  "show_nat n = (if n < 10 then [digit_char n] else show_nat (n div 10) @ [digit_char (n mod 10)])"

declare show_nat.simps [simp del]

definition show_int :: "int \<Rightarrow> string" where
  "show_int i = (if i < 0 then CHR ''-'' # show_nat (nat (- i)) else show_nat (nat i))"

text \<open>
  \<^verbatim>\<open>parseFloat\<close> is applied to the numeric columns of a row (amount, balance,
  allocated_amount). The rows here hold these columns as numbers already, and
  \<^verbatim>\<open>parseFloat\<close> of a number is that number.
\<close>

definition parseFloat :: "'n \<Rightarrow> 'n" where
  "parseFloat x = x"

subsection \<open>Truthiness\<close>

text \<open>
  The values JavaScript takes for false in a condition: null, false, 0 and the empty
  string; every array and object is true.
\<close>

fun truthy :: "json \<Rightarrow> bool" where
  "truthy JNull = False"
| "truthy (JBool b) = b"
| "truthy (JNum m e) = (m \<noteq> 0)"
| "truthy (JStr s) = (s \<noteq> [])"
| "truthy (JArr xs) = True"
| "truthy (JObj kvs) = True"

subsection \<open>\<^verbatim>\<open>JSON.parse\<close>\<close>

text \<open>
  A parser for the JSON grammar (ECMA-404), which is what \<^verbatim>\<open>JSON.parse\<close> accepts: white
  space is space, tab, line feed and carriage return; a value is an object, an array, a
  string, a number or one of \<^verbatim>\<open>true\<close>, \<^verbatim>\<open>false\<close>, \<^verbatim>\<open>null\<close>; nothing but white space may
  follow the value. A text outside the grammar makes \<^verbatim>\<open>JSON.parse\<close> throw a SyntaxError:
  here the result \<open>Inl SyntaxError\<close>. Strings are byte lists, so a \<^verbatim>\<open>\uXXXX\<close> escape yields
  the UTF-8 bytes of its code point. (each half of a surrogate pair on its own). None of this
  bears on which texts are accepted.
\<close>

definition is_ws :: "char \<Rightarrow> bool" where
  "is_ws c = (c = CHR 0x20 \<or> c = CHR 0x09 \<or> c = CHR 0x0A \<or> c = CHR 0x0D)"

definition skip_ws :: "string \<Rightarrow> string" where
  "skip_ws cs = dropWhile is_ws cs"

definition char_code :: "char \<Rightarrow> nat" where
  "char_code c = of_char c"

definition is_digit :: "char \<Rightarrow> bool" where
  "is_digit c = (48 \<le> char_code c \<and> char_code c \<le> 57)"

definition is_hex :: "char \<Rightarrow> bool" where
  "is_hex c = (is_digit c \<or> (65 \<le> char_code c \<and> char_code c \<le> 70) \<or> (97 \<le> char_code c \<and> char_code c \<le> 102))"

definition hex_val :: "char \<Rightarrow> nat" where
  "hex_val c = (if is_digit c then char_code c - 48 else if char_code c \<le> 70 then char_code c - 55 else char_code c - 87)"

definition nat_of_digits :: "string \<Rightarrow> nat" where
  "nat_of_digits ds = foldl (\<lambda>n c. 10 * n + (char_code c - 48)) 0 ds"

definition nat_of_hex :: "string \<Rightarrow> nat" where
  "nat_of_hex ds = foldl (\<lambda>n c. 16 * n + hex_val c) 0 ds"

definition utf8 :: "nat \<Rightarrow> string" where
  "utf8 cp =
     (if cp < 128 then [char_of cp]
      else if cp < 2048 then [char_of (192 + cp div 64), char_of (128 + cp mod 64)]
      else [char_of (224 + cp div 4096), char_of (128 + (cp div 64) mod 64), char_of (128 + cp mod 64)])"

definition escape :: "char \<Rightarrow> char option" where
  "escape e =
     (if e = CHR 0x22 then Some (CHR 0x22)
      else if e = CHR 0x5C then Some (CHR 0x5C)
      else if e = CHR ''/'' then Some (CHR ''/'')
      else if e = CHR ''b'' then Some (CHR 0x08)
      else if e = CHR ''f'' then Some (CHR 0x0C)
      else if e = CHR ''n'' then Some (CHR 0x0A)
      else if e = CHR ''r'' then Some (CHR 0x0D)
      else if e = CHR ''t'' then Some (CHR 0x09)
      else None)"

definition consume :: "string \<Rightarrow> (string \<times> string) option \<Rightarrow> (string \<times> string) option" where
  "consume pre res = (case res of None \<Rightarrow> None | Some (s, rest) \<Rightarrow> Some (pre @ s, rest))"

text \<open>The characters of a string after its opening quote, up to the closing quote.\<close>

fun parse_chars :: "string \<Rightarrow> (string \<times> string) option" where
  "parse_chars [] = None"
| "parse_chars (c # cs) =
     (if c = CHR 0x22 then Some ([], cs)
      else if c = CHR 0x5C then
        (case cs of
           [] \<Rightarrow> None
         | e # r \<Rightarrow>
             if e = CHR ''u'' then
               (if 4 \<le> length r \<and> list_all is_hex (take 4 r)
                then consume (utf8 (nat_of_hex (take 4 r))) (parse_chars (drop 4 r))
                else None)
             else (case escape e of
                     None \<Rightarrow> None
                   | Some x \<Rightarrow> consume [x] (parse_chars r)))
      else if char_code c < 32 then None
      else consume [c] (parse_chars cs))"

text \<open>
  A number: an optional minus, an integer part without a leading zero, an optional
  fraction and an optional exponent. Its value is \<open>m * 10 ^ e\<close>.
\<close>

definition parse_exponent :: "string \<Rightarrow> (int \<times> string) option" where
  "parse_exponent cs =
     (case cs of
        [] \<Rightarrow> Some (0, cs)
      | c # r \<Rightarrow>
          if c = CHR ''e'' \<or> c = CHR ''E'' then
            (let neg = (r \<noteq> [] \<and> hd r = CHR ''-'');
                 r1 = (if r \<noteq> [] \<and> (hd r = CHR ''-'' \<or> hd r = CHR ''+'') then tl r else r);
                 ds = takeWhile is_digit r1
             in if ds = [] then None
                else Some ((if neg then - int (nat_of_digits ds) else int (nat_of_digits ds)),
                           dropWhile is_digit r1))
          else Some (0, cs))"

definition parse_number :: "string \<Rightarrow> (json \<times> string) option" where
  "parse_number cs =
     (let neg = (cs \<noteq> [] \<and> hd cs = CHR ''-'');
          cs1 = (if neg then tl cs else cs);
          ip = takeWhile is_digit cs1;
          cs2 = dropWhile is_digit cs1
      in if ip = [] \<or> (1 < length ip \<and> hd ip = CHR ''0'') then None
         else
           (let dot = (cs2 \<noteq> [] \<and> hd cs2 = CHR ''.'');
                fp = (if dot then takeWhile is_digit (tl cs2) else []);
                cs3 = (if dot then dropWhile is_digit (tl cs2) else cs2)
            in if dot \<and> fp = [] then None
               else (case parse_exponent cs3 of
                       None \<Rightarrow> None
                     | Some (ex, rest) \<Rightarrow>
                         Some (JNum ((if neg then - 1 else 1) * int (nat_of_digits (ip @ fp)))
                                    (ex - int (length fp)), rest))))"

text \<open>
  Values, the elements of an array after its bracket or a comma, and the members of an
  object after its brace or a comma. The first argument bounds the depth of the calls;
  \<open>JSON_parse\<close> starts it above twice the length of the text, and of two calls in a row
  one at least consumes a character.
\<close>

fun parse_value :: "nat \<Rightarrow> string \<Rightarrow> (json \<times> string) option"
  and parse_elements :: "nat \<Rightarrow> string \<Rightarrow> (json list \<times> string) option"
  and parse_members :: "nat \<Rightarrow> string \<Rightarrow> ((string \<times> json) list \<times> string) option" where
  "parse_value 0 cs = None"
| "parse_value (Suc n) cs =
     (case cs of
        [] \<Rightarrow> None
      | c # r \<Rightarrow>
          if c = CHR ''{'' then
            (case skip_ws r of
               [] \<Rightarrow> None
             | d # r' \<Rightarrow>
                 if d = CHR ''}'' then Some (JObj [], r')
                 else (case parse_members n (skip_ws r) of
                         None \<Rightarrow> None
                       | Some (kvs, rest) \<Rightarrow> Some (JObj kvs, rest)))
          else if c = CHR ''['' then
            (case skip_ws r of
               [] \<Rightarrow> None
             | d # r' \<Rightarrow>
                 if d = CHR '']'' then Some (JArr [], r')
                 else (case parse_elements n (skip_ws r) of
                         None \<Rightarrow> None
                       | Some (vs, rest) \<Rightarrow> Some (JArr vs, rest)))
          else if c = CHR 0x22 then
            (case parse_chars r of
               None \<Rightarrow> None
             | Some (s, rest) \<Rightarrow> Some (JStr s, rest))
          else if take 4 cs = ''true'' then Some (JBool True, drop 4 cs)
          else if take 5 cs = ''false'' then Some (JBool False, drop 5 cs)
          else if take 4 cs = ''null'' then Some (JNull, drop 4 cs)
          else parse_number cs)"
| "parse_elements 0 cs = None"
| "parse_elements (Suc n) cs =
     (case parse_value n cs of
        None \<Rightarrow> None
      | Some (v, r) \<Rightarrow>
          (case skip_ws r of
             [] \<Rightarrow> None
           | d # r' \<Rightarrow>
               if d = CHR '']'' then Some ([v], r')
               else if d = CHR '','' then
                 (case parse_elements n (skip_ws r') of
                    None \<Rightarrow> None
                  | Some (vs, rest) \<Rightarrow> Some (v # vs, rest))
               else None))"
| "parse_members 0 cs = None"
| "parse_members (Suc n) cs =
     (case cs of
        [] \<Rightarrow> None
      | q # r \<Rightarrow>
          if q \<noteq> CHR 0x22 then None
          else (case parse_chars r of
                  None \<Rightarrow> None
                | Some (k, r1) \<Rightarrow>
                    (case skip_ws r1 of
                       [] \<Rightarrow> None
                     | colon # r2 \<Rightarrow>
                         if colon \<noteq> CHR '':'' then None
                         else (case parse_value n (skip_ws r2) of
                                 None \<Rightarrow> None
                               | Some (v, r3) \<Rightarrow>
                                   (case skip_ws r3 of
                                      [] \<Rightarrow> None
                                    | d # r4 \<Rightarrow>
                                        if d = CHR ''}'' then Some ([(k, v)], r4)
                                        else if d = CHR '','' then
                                          (case parse_members n (skip_ws r4) of
                                             None \<Rightarrow> None
                                           | Some (kvs, rest) \<Rightarrow> Some ((k, v) # kvs, rest))
                                        else None)))))"

definition JSON_parse :: "string \<Rightarrow> exn + json" where
  "JSON_parse s =
     (case parse_value (2 * length s + 2) (skip_ws s) of
        None \<Rightarrow> Inl SyntaxError
      | Some (v, rest) \<Rightarrow> if skip_ws rest = [] then Inr v else Inl SyntaxError)"

subsection \<open>\<^verbatim>\<open>JSON.stringify\<close> of a member's sector and level\<close>

text \<open>
  addMessage serialises the object \<^verbatim>\<open>{ sector: m.sector, level: m.level }\<close>. In a string
  \<^verbatim>\<open>JSON.stringify\<close> escapes the quote, the backslash and the control characters.
\<close>

definition hex_digit :: "nat \<Rightarrow> char" where
  "hex_digit d = ''0123456789abcdef'' ! d"

definition quote_char :: "char \<Rightarrow> string" where
  "quote_char c =
     (if c = CHR 0x22 then [CHR 0x5C, CHR 0x22]
      else if c = CHR 0x5C then [CHR 0x5C, CHR 0x5C]
      else if c = CHR 0x08 then [CHR 0x5C, CHR ''b'']
      else if c = CHR 0x0C then [CHR 0x5C, CHR ''f'']
      else if c = CHR 0x0A then [CHR 0x5C, CHR ''n'']
      else if c = CHR 0x0D then [CHR 0x5C, CHR ''r'']
      else if c = CHR 0x09 then [CHR 0x5C, CHR ''t'']
      else if char_code c < 32 then
        [CHR 0x5C, CHR ''u'', CHR ''0'', CHR ''0'', hex_digit (char_code c div 16), hex_digit (char_code c mod 16)]
      else [c])"

definition JSON_quote :: "string \<Rightarrow> string" where
  "JSON_quote s = CHR 0x22 # concat (map quote_char s) @ [CHR 0x22]"

definition stringify_memberInfo :: "string \<Rightarrow> string \<Rightarrow> string" where
  "stringify_memberInfo sec lev =
     ''{'' @ JSON_quote ''sector'' @ '':'' @ JSON_quote sec @ '','' @
     JSON_quote ''level'' @ '':'' @ JSON_quote lev @ ''}''"

section \<open>The remote provider\<close>

subsection \<open>Field mappers\<close>

definition mapMember :: "'n members_row \<Rightarrow> 'n Member" where
  "mapMember m =
     \<lparr>dossierNumber = dossier_number m, ine = m_ine m, firstName = first_name m,
      lastName = last_name m, dob = m_dob m, sector = m_sector m, level = m_level m,
      gender = m_gender m, balance = parseFloat (m_balance m),
      mb_id = m_id m, uniqueId = unique_id m\<rparr>"

definition mapTransaction :: "'n transactions_row \<Rightarrow> 'n Transaction" where
  "mapTransaction t =
     \<lparr>tx_type = t_type t, tx_category = t_category t, amount = parseFloat (t_amount t),
      date = t_date t, description = t_description t, performedBy = performed_by t,
      matricule = t_matricule t, tx_function = t_function t, responsible = t_responsible t,
      receiptNumber = receipt_number t, proofUrl = proof_url t,
      tx_id = t_id t, status = t_status t, signature = t_signature t\<rparr>"

definition mapBudget :: "('n::zero) budgets_row \<Rightarrow> 'n Budget" where
  "mapBudget b =
     \<lparr>bg_id = b_id b, bg_category = b_category b,
      allocatedAmount = parseFloat (allocated_amount b), spentAmount = 0, year = b_year b\<rparr>"

text \<open>
  \<^verbatim>\<open>
  memberInfo: m.member_info_json
    ? (typeof m.member_info_json === 'string'
         ? JSON.parse(m.member_info_json) : m.member_info_json)
    : undefined
  \<close>
  The parser is an argument, so that what is proved of mapMessage holds for \<^verbatim>\<open>JSON.parse\<close>
  whatever texts it accepts; \<open>JSON_parse\<close> above is the instance.
\<close>

definition mapMessage :: "(string \<Rightarrow> exn + json) \<Rightarrow> messages_row \<Rightarrow> exn + CommunityMessage" where
  "mapMessage parse m =
     (let mk = (\<lambda>info. \<lparr>msg_id = c_id m, userId = user_id m, userName = user_name m,
                         userRole = user_role m, memberInfo = info, content = c_content m,
                         timestamp = created_at m\<rparr>)
      in if truthy (member_info_json m) then
           (case member_info_json m of
              JStr s \<Rightarrow> (case parse s of Inl e \<Rightarrow> Inl e | Inr v \<Rightarrow> Inr (mk (Some v)))
            | v \<Rightarrow> Inr (mk (Some v)))
         else Inr (mk None))"

text \<open>\<^verbatim>\<open>rows.map(mapMessage)\<close>: the first row whose mapping throws ends the whole map.\<close>

fun map_messages :: "(string \<Rightarrow> exn + json) \<Rightarrow> messages_row list \<Rightarrow> exn + CommunityMessage list" where
  "map_messages parse [] = Inr []"
| "map_messages parse (m # ms) =
     (case mapMessage parse m of
        Inl e \<Rightarrow> Inl e
      | Inr x \<Rightarrow> (case map_messages parse ms of Inl e \<Rightarrow> Inl e | Inr xs \<Rightarrow> Inr (x # xs)))"

subsection \<open>Initial load and the change stream\<close>

text \<open>
  The default budgets fetchData builds when the remote collection is empty, one for each
  value of the ExpenseCategory enumeration (an argument: the enumeration is declared in
  \<^verbatim>\<open>../types\<close>), with the identifier \<^verbatim>\<open>`b-${index}`\<close>. The year is
  \<^verbatim>\<open>new Date().getFullYear()\<close>.
\<close>

definition default_budgets :: "string list \<Rightarrow> int \<Rightarrow> ('n::zero) Budget list" where
  "default_budgets categories yr =
     map (\<lambda>(index, cat). \<lparr>bg_id = ''b-'' @ show_nat index, bg_category = cat,
                            allocatedAmount = 0, spentAmount = 0, year = yr\<rparr>)
       (enumerate 0 categories)"

definition is_rejected :: "'a response \<Rightarrow> bool" where
  "is_rejected r = (case r of Rejected \<Rightarrow> True | _ \<Rightarrow> False)"

text \<open>
  fetchData awaits the five selects together (\<^verbatim>\<open>Promise.all\<close>: one rejection rejects the
  whole), inside \<^verbatim>\<open>try\<close>; the \<^verbatim>\<open>catch\<close> only logs and the \<^verbatim>\<open>finally\<close> clears
  \<^verbatim>\<open>isLoading\<close>. An exception of the message mapping leaves the members and the
  transactions it has already set, and skips the settings and the budgets.
\<close>

definition fetchData ::
  "string list \<Rightarrow> int \<Rightarrow> (string \<Rightarrow> exn + json) \<Rightarrow>
   'n members_row list response \<Rightarrow> 'n transactions_row list response \<Rightarrow>
   'n budgets_row list response \<Rightarrow> messages_row list response \<Rightarrow>
   settings_cols list response \<Rightarrow> ('n::zero) store \<Rightarrow> 'n request list \<times> 'n store" where
  "fetchData categories yr parse resM resT resB resMsg resS s =
     ([Members_select, Transactions_select, Budgets_select, Messages_select, Settings_select],
      let s0 = s\<lparr>isLoading := True\<rparr> in
      if is_rejected resM \<or> is_rejected resT \<or> is_rejected resB \<or> is_rejected resMsg
           \<or> is_rejected resS
      then s0\<lparr>isLoading := False\<rparr>
      else
        let s1 = (case resM of Success d \<Rightarrow> s0\<lparr>members := map mapMember d\<rparr> | _ \<Rightarrow> s0);
            s2 = (case resT of Success d \<Rightarrow> s1\<lparr>transactions := map mapTransaction d\<rparr> | _ \<Rightarrow> s1)
        in case (case resMsg of Success d \<Rightarrow> map_messages parse d | _ \<Rightarrow> Inr (messages s2)) of
             Inl e \<Rightarrow> s2\<lparr>isLoading := False\<rparr>
           | Inr msgs \<Rightarrow>
               let s3 = s2\<lparr>messages := msgs\<rparr>;
                   s4 = (case resS of
                           Success (r # rs) \<Rightarrow>
                             s3\<lparr>settings := \<lparr>associationName = association_name r,
                                               currency = s_currency r,
                                               logoUrl = (case logo_url r of None \<Rightarrow> [] | Some u \<Rightarrow> u)\<rparr>\<rparr>
                         | _ \<Rightarrow> s3);
                   dbBudgets = (case resB of Success d \<Rightarrow> map mapBudget d | _ \<Rightarrow> []);
                   s5 = s4\<lparr>budgets := (if dbBudgets = [] then default_budgets categories yr
                                          else dbBudgets)\<rparr>
               in s5\<lparr>isLoading := False\<rparr>)"

text \<open>The two handlers of the \<^verbatim>\<open>public:messages\<close> channel, for INSERT and DELETE events.\<close>

definition on_insert :: "(string \<Rightarrow> exn + json) \<Rightarrow> messages_row \<Rightarrow> 'n store \<Rightarrow> exn + 'n store" where
  "on_insert parse payload_new s =
     (case mapMessage parse payload_new of
        Inl e \<Rightarrow> Inl e
      | Inr newMsg \<Rightarrow> Inr (s\<lparr>messages := messages s @ [newMsg]\<rparr>))"

definition on_delete :: "string \<Rightarrow> 'n store \<Rightarrow> 'n store" where
  "on_delete old_id s = s\<lparr>messages := filter (\<lambda>m. msg_id m \<noteq> old_id) (messages s)\<rparr>"

text \<open>
  The effect that runs after the transactions change. The source compares the two budget
  lists by their \<^verbatim>\<open>JSON.stringify\<close> texts; here they are compared as values. The same
  effect stands in both providers.
\<close>

definition recompute_effect :: "('n::{zero,plus}, 'z) cache_scheme \<Rightarrow> ('n, 'z) cache_scheme" where
  "recompute_effect s =
     (let newBudgets = recompute (transactions s) (budgets s)
      in if newBudgets \<noteq> budgets s then s\<lparr>budgets := newBudgets\<rparr> else s)"

subsection \<open>Session\<close>

text \<open>
  login awaits the lookup inside \<^verbatim>\<open>try\<close>; a rejection is caught and logged. It returns the
  requests it issued, its boolean result and the state.
\<close>

definition login ::
  "users_row response \<Rightarrow> string \<Rightarrow> string \<Rightarrow> 'n store \<Rightarrow> 'n request list \<times> bool \<times> 'n store" where
  "login resp em pass s =
     ([Users_select_single em pass],
      case resp of
        Success d \<Rightarrow>
          (True, s\<lparr>user := Some \<lparr>email = u_email d, name = u_name d, role = u_role d,
                                   memberId = member_id d\<rparr>\<rparr>)
      | Failure err \<Rightarrow> (False, s)
      | Rejected \<Rightarrow> (False, s))"

definition logout :: "('n, 'z) cache_scheme \<Rightarrow> ('n, 'z) cache_scheme" where
  "logout s = s\<lparr>user := None\<rparr>"

text \<open>
  What the remote store answers to the lookup of login, for a \<^verbatim>\<open>users\<close> collection with the
  given rows: the two \<^verbatim>\<open>eq\<close> filters keep the rows whose email and password are the given
  ones, and \<^verbatim>\<open>single()\<close> answers with the row when exactly one is left and with an error
  otherwise.
\<close>

definition users_select_single :: "users_row list \<Rightarrow> string \<Rightarrow> string \<Rightarrow> users_row response" where
  "users_select_single tbl em pass =
     (case filter (\<lambda>u. u_email u = em \<and> password u = pass) tbl of
        [u] \<Rightarrow> Success u
      | _ \<Rightarrow> Failure ''PGRST116'')"

subsection \<open>Transactions\<close>

text \<open>
  The row addTransaction builds. \<^verbatim>\<open>Date.now()\<close> is read twice, first for the receipt
  number and then for the signature; \<^verbatim>\<open>user?.role === UserRole.TRESORIER\<close> is false when
  there is no user.
\<close>

definition newTx :: "int \<Rightarrow> int \<Rightarrow> 'n TransactionInput \<Rightarrow> ('n, 'z) cache_scheme \<Rightarrow> 'n transactions_cols" where
  "newTx now_rec now_sig t s =
     \<lparr>t_type = tx_type t, t_category = tx_category t, t_amount = amount t, t_date = date t,
      t_description = description t, performed_by = performedBy t, t_matricule = matricule t,
      t_function = tx_function t,
      receipt_number = (if tx_type t = INCOME then Some (''REC-'' @ show_int now_rec) else None),
      t_status = (if (case user s of None \<Rightarrow> False | Some u \<Rightarrow> role u = TRESORIER)
                  then APPROVED else PENDING),
      t_responsible = responsible t,
      t_signature = ''SIG-'' @ show_int now_sig,
      proof_url = proofUrl t\<rparr>"

definition addTransaction ::
  "int \<Rightarrow> int \<Rightarrow> 'n transactions_row list response \<Rightarrow> 'n TransactionInput \<Rightarrow> 'n store \<Rightarrow> 'n run" where
  "addTransaction now_rec now_sig resp t s =
     ([Transactions_insert (newTx now_rec now_sig t s)],
      case resp of
        Rejected \<Rightarrow> Inl RemoteError
      | Failure err \<Rightarrow> Inr s
      | Success data \<Rightarrow>
          (case data of
             [] \<Rightarrow> Inl TypeError
           | d # ds \<Rightarrow> Inr (s\<lparr>transactions := mapTransaction d # transactions s\<rparr>)))"

definition approveTransaction :: "unit response \<Rightarrow> string \<Rightarrow> 'n store \<Rightarrow> 'n run" where
  "approveTransaction resp i s =
     ([Transactions_update_status APPROVED i],
      case resp of
        Rejected \<Rightarrow> Inl RemoteError
      | Failure err \<Rightarrow> Inr s
      | Success u \<Rightarrow>
          Inr (s\<lparr>transactions :=
                   map (\<lambda>t. if tx_id t = i then t\<lparr>status := APPROVED\<rparr> else t) (transactions s)\<rparr>))"

definition rejectTransaction :: "unit response \<Rightarrow> string \<Rightarrow> 'n store \<Rightarrow> 'n run" where
  "rejectTransaction resp i s =
     ([Transactions_update_status REJECTED i],
      case resp of
        Rejected \<Rightarrow> Inl RemoteError
      | Failure err \<Rightarrow> Inr s
      | Success u \<Rightarrow>
          Inr (s\<lparr>transactions :=
                   map (\<lambda>t. if tx_id t = i then t\<lparr>status := REJECTED\<rparr> else t) (transactions s)\<rparr>))"

definition deleteTransaction :: "unit response \<Rightarrow> string \<Rightarrow> 'n store \<Rightarrow> 'n run" where
  "deleteTransaction resp i s =
     ([Transactions_delete i],
      case resp of
        Rejected \<Rightarrow> Inl RemoteError
      | Failure err \<Rightarrow> Inr s
      | Success u \<Rightarrow> Inr (s\<lparr>transactions := filter (\<lambda>t. tx_id t \<noteq> i) (transactions s)\<rparr>))"

subsection \<open>Members\<close>

text \<open>
  \<open>rand\<close> stands for the value of
  \<^verbatim>\<open>Math.floor(10000000000 + Math.random() * 90000000000)\<close>, a natural number; the sum
  and the product are taken in floating point before the floor, so the argument is the
  floored number itself. The suffix is its numeral.
\<close>

definition newUniqueId :: "nat \<Rightarrow> Gender \<Rightarrow> string" where
  "newUniqueId rand g =
     (let prefix = (if g = MALE then ''A'' else ''B'');
          randomSuffix = show_nat rand
      in prefix @ randomSuffix)"

definition addMember ::
  "nat \<Rightarrow> 'n members_row list response \<Rightarrow> 'n MemberInput \<Rightarrow> 'n store \<Rightarrow> 'n run" where
  "addMember rand resp m s =
     (let newMember =
            \<lparr>unique_id = newUniqueId rand (gender m), first_name = firstName m,
             last_name = lastName m, m_dob = dob m, m_sector = sector m, m_level = level m,
             m_gender = gender m, dossier_number = dossierNumber m, m_ine = ine m,
             m_balance = balance m\<rparr>
      in ([Members_insert newMember],
          case resp of
            Rejected \<Rightarrow> Inl RemoteError
          | Failure err \<Rightarrow> Inr s
          | Success data \<Rightarrow>
              (case data of
                 [] \<Rightarrow> Inl TypeError
               | d # ds \<Rightarrow> Inr (s\<lparr>members := members s @ [mapMember d]\<rparr>))))"

definition deleteMember :: "unit response \<Rightarrow> string \<Rightarrow> 'n store \<Rightarrow> 'n run" where
  "deleteMember resp i s =
     ([Members_delete i],
      case resp of
        Rejected \<Rightarrow> Inl RemoteError
      | Failure err \<Rightarrow> Inr s
      | Success u \<Rightarrow> Inr (s\<lparr>members := filter (\<lambda>m. mb_id m \<noteq> i) (members s)\<rparr>))"

subsection \<open>Budgets and settings\<close>

text \<open>
  updateBudget inserts when the identifier starts with \<^verbatim>\<open>b-\<close> and updates otherwise. The
  insert's row has no identifier (\<^verbatim>\<open>id: undefined\<close> is not sent). In the insert branch
  \<^verbatim>\<open>mapBudget(data[0])\<close> is evaluated for the budgets whose identifier is the given one, so
  an empty \<^verbatim>\<open>data\<close> throws only when there is one. The update branch awaits the call,
  reads nothing of its result, and writes the cache.
\<close>

definition updateBudget ::
  "int \<Rightarrow> 'n budgets_row list response \<Rightarrow> string \<Rightarrow> 'n \<Rightarrow> string \<Rightarrow> ('n::zero) store \<Rightarrow> 'n run" where
  "updateBudget yr resp i amt category s =
     (if startsWith i ''b-'' then
        ([Budgets_insert \<lparr>b_category = category, allocated_amount = amt, b_year = yr\<rparr>],
         case resp of
           Rejected \<Rightarrow> Inl RemoteError
         | Failure err \<Rightarrow> Inr s
         | Success data \<Rightarrow>
             (case data of
                [] \<Rightarrow> if \<exists>b \<in> set (budgets s). bg_id b = i then Inl TypeError else Inr s
              | d # ds \<Rightarrow>
                  Inr (s\<lparr>budgets := map (\<lambda>b. if bg_id b = i then mapBudget d else b) (budgets s)\<rparr>)))
      else
        ([Budgets_update_allocated amt i],
         case resp of
           Rejected \<Rightarrow> Inl RemoteError
         | _ \<Rightarrow>
             Inr (s\<lparr>budgets :=
                      map (\<lambda>b. if bg_id b = i then b\<lparr>allocatedAmount := amt\<rparr> else b) (budgets s)\<rparr>)))"

definition updateSettings :: "unit response \<Rightarrow> AppSettings \<Rightarrow> 'n store \<Rightarrow> 'n run" where
  "updateSettings resp new s =
     ([Settings_update \<lparr>association_name = associationName new, s_currency = currency new,
                        logo_url = Some (logoUrl new)\<rparr>],
      case resp of
        Rejected \<Rightarrow> Inl RemoteError
      | _ \<Rightarrow> Inr (s\<lparr>settings := new\<rparr>))"

subsection \<open>Community messages\<close>

text \<open>
  \<^verbatim>\<open>if (user.memberId)\<close> is false for an absent and for an empty identifier. addMessage
  writes no state cell: the message reaches the cache through the change stream.
\<close>

definition memberInfo_of :: "User \<Rightarrow> ('n, 'z) Member_scheme list \<Rightarrow> (string \<times> string) option" where
  "memberInfo_of u ms =
     (case memberId u of
        None \<Rightarrow> None
      | Some mid \<Rightarrow>
          if mid = [] then None
          else (case find (\<lambda>mem. mb_id mem = mid) ms of
                  None \<Rightarrow> None
                | Some m \<Rightarrow> Some (sector m, level m)))"

definition addMessage :: "unit response \<Rightarrow> string \<Rightarrow> 'n store \<Rightarrow> 'n run" where
  "addMessage resp body s =
     (case user s of
        None \<Rightarrow> ([], Inr s)
      | Some u \<Rightarrow>
          (let newMsg =
                 \<lparr>user_id = email u, user_name = name u, user_role = role u,
                  member_info_json =
                    (case memberInfo_of u (members s) of
                       None \<Rightarrow> JNull
                     | Some (sec, lev) \<Rightarrow> JStr (stringify_memberInfo sec lev)),
                  c_content = body\<rparr>
           in ([Messages_insert newMsg],
               case resp of Rejected \<Rightarrow> Inl RemoteError | _ \<Rightarrow> Inr s)))"

definition deleteMessage :: "unit response \<Rightarrow> string \<Rightarrow> 'n store \<Rightarrow> 'n run" where
  "deleteMessage resp i s =
     ([Messages_delete i], case resp of Rejected \<Rightarrow> Inl RemoteError | _ \<Rightarrow> Inr s)"

subsection \<open>Derived values\<close>

definition totalIncome :: "('n::{zero,plus}) Transaction list \<Rightarrow> 'n" where
  "totalIncome ts =
     foldl (\<lambda>acc t. acc + amount t) 0 (filter (\<lambda>t. tx_type t = INCOME \<and> status t = APPROVED) ts)"

definition totalExpense :: "('n::{zero,plus}) Transaction list \<Rightarrow> 'n" where
  "totalExpense ts =
     foldl (\<lambda>acc t. acc + amount t) 0 (filter (\<lambda>t. tx_type t = EXPENSE \<and> status t = APPROVED) ts)"

definition pendingCount :: "'n Transaction list \<Rightarrow> nat" where
  "pendingCount ts = length (filter (\<lambda>t. status t = PENDING) ts)"

section \<open>The in-memory provider\<close>

text \<open>
  The same entry points without a remote store: each writes its state cell at once.
  \<open>rid\<close> stands for \<^verbatim>\<open>Math.random().toString(36).substr(2, 9)\<close>. The letter e with an acute
  accent is written as its two UTF-8 bytes.
\<close>

definition e_acute :: string where
  "e_acute = [CHR 0xC3, CHR 0xA9]"

definition MOCK_TRANSACTIONS :: "('n::numeral) Transaction list" where
  "MOCK_TRANSACTIONS =
     [\<lparr>tx_type = INCOME, tx_category = ''Cotisation'', amount = 15000, date = ''2023-10-01'',
       description = ''Cotisation annuelle'', performedBy = ''Jean Dupont'',
       matricule = ''A00000000001'', tx_function = ''Membre'',
       responsible = ''Tr'' @ e_acute @ ''sorier'', receiptNumber = Some ''REC-001'',
       proofUrl = None, tx_id = ''t1'', status = APPROVED, signature = ''SIG-123''\<rparr>,
      \<lparr>tx_type = EXPENSE, tx_category = ''Transport'', amount = 2000, date = ''2023-10-05'',
       description = ''Taxi pour r'' @ e_acute @ ''union pr'' @ e_acute @ ''fecture'',
       performedBy = ''Marie Curie'', matricule = ''B00000000001'',
       tx_function = ''Secr'' @ e_acute @ ''taire'',
       responsible = ''Pr'' @ e_acute @ ''sident'', receiptNumber = None,
       proofUrl = None, tx_id = ''t2'', status = PENDING, signature = ''SIG-124''\<rparr>]"

text \<open>
  login of the in-memory provider. \<^verbatim>\<open>ADMIN_EMAIL\<close> and \<^verbatim>\<open>ADMIN_PASS\<close> are constants of
  \<^verbatim>\<open>../constants\<close>, which is not among the sources: they are arguments. The two demo
  accounts are recognised by their email alone.
\<close>

definition login_mock ::
  "string \<Rightarrow> string \<Rightarrow> string \<Rightarrow> string \<Rightarrow> ('n, 'z) cache_scheme \<Rightarrow> bool \<times> ('n, 'z) cache_scheme" where
  "login_mock ADMIN_EMAIL ADMIN_PASS em pass s =
     (if em = ADMIN_EMAIL \<and> pass = ADMIN_PASS then
        (True, s\<lparr>user := Some \<lparr>email = em, name = ''Administrateur (Djahfar)'',
                                 role = TRESORIER, memberId = None\<rparr>\<rparr>)
      else if em = ''president@asso.com'' then
        (True, s\<lparr>user := Some \<lparr>email = em, name = ''Pr'' @ e_acute @ ''sident Association'',
                                 role = PRESIDENT, memberId = None\<rparr>\<rparr>)
      else if em = ''membre@asso.com'' then
        (True, s\<lparr>user := Some \<lparr>email = em, name = ''Jean Dupont'', role = MEMBRE,
                                 memberId = Some ''1''\<rparr>\<rparr>)
      else (False, s))"

text \<open>
  \<^verbatim>\<open>{ ...t, id, status, signature, receiptNumber }\<close>: the receipt number of the argument is
  overwritten. \<^verbatim>\<open>Date.now()\<close> is read for the signature and then for the receipt number.
\<close>

definition newTx_mock ::
  "string \<Rightarrow> int \<Rightarrow> int \<Rightarrow> 'n TransactionInput \<Rightarrow> ('n, 'z) cache_scheme \<Rightarrow> 'n Transaction" where
  "newTx_mock rid now_sig now_rec t s =
     \<lparr>tx_type = tx_type t, tx_category = tx_category t, amount = amount t, date = date t,
      description = description t, performedBy = performedBy t, matricule = matricule t,
      tx_function = tx_function t, responsible = responsible t,
      receiptNumber = (if tx_type t = INCOME then Some (''REC-'' @ show_int now_rec) else None),
      proofUrl = proofUrl t,
      tx_id = rid,
      status = (if (case user s of None \<Rightarrow> False | Some u \<Rightarrow> role u = TRESORIER)
                then APPROVED else PENDING),
      signature = ''SIG-'' @ show_int now_sig\<rparr>"

definition addTransaction_mock ::
  "string \<Rightarrow> int \<Rightarrow> int \<Rightarrow> 'n TransactionInput \<Rightarrow> ('n, 'z) cache_scheme \<Rightarrow> ('n, 'z) cache_scheme" where
  "addTransaction_mock rid now_sig now_rec t s =
     s\<lparr>transactions := newTx_mock rid now_sig now_rec t s # transactions s\<rparr>"

definition approveTransaction_mock :: "string \<Rightarrow> ('n, 'z) cache_scheme \<Rightarrow> ('n, 'z) cache_scheme" where
  "approveTransaction_mock i s =
     s\<lparr>transactions := map (\<lambda>t. if tx_id t = i then t\<lparr>status := APPROVED\<rparr> else t) (transactions s)\<rparr>"

definition rejectTransaction_mock :: "string \<Rightarrow> ('n, 'z) cache_scheme \<Rightarrow> ('n, 'z) cache_scheme" where
  "rejectTransaction_mock i s =
     s\<lparr>transactions := map (\<lambda>t. if tx_id t = i then t\<lparr>status := REJECTED\<rparr> else t) (transactions s)\<rparr>"

definition deleteTransaction_mock :: "string \<Rightarrow> ('n, 'z) cache_scheme \<Rightarrow> ('n, 'z) cache_scheme" where
  "deleteTransaction_mock i s = s\<lparr>transactions := filter (\<lambda>t. tx_id t \<noteq> i) (transactions s)\<rparr>"

definition addMember_mock ::
  "nat \<Rightarrow> string \<Rightarrow> 'n MemberInput \<Rightarrow> ('n, 'z) cache_scheme \<Rightarrow> ('n, 'z) cache_scheme" where
  "addMember_mock rand rid m s =
     (let newMember =
            \<lparr>dossierNumber = dossierNumber m, ine = ine m, firstName = firstName m,
             lastName = lastName m, dob = dob m, sector = sector m, level = level m,
             gender = gender m, balance = balance m,
             mb_id = rid, uniqueId = newUniqueId rand (gender m)\<rparr>
      in s\<lparr>members := members s @ [newMember]\<rparr>)"

definition deleteMember_mock :: "string \<Rightarrow> ('n, 'z) cache_scheme \<Rightarrow> ('n, 'z) cache_scheme" where
  "deleteMember_mock i s = s\<lparr>members := filter (\<lambda>m. mb_id m \<noteq> i) (members s)\<rparr>"

definition updateBudget_mock :: "string \<Rightarrow> 'n \<Rightarrow> ('n, 'z) cache_scheme \<Rightarrow> ('n, 'z) cache_scheme" where
  "updateBudget_mock i amt s =
     s\<lparr>budgets := map (\<lambda>b. if bg_id b = i then b\<lparr>allocatedAmount := amt\<rparr> else b) (budgets s)\<rparr>"

definition updateSettings_mock :: "AppSettings \<Rightarrow> ('n, 'z) cache_scheme \<Rightarrow> ('n, 'z) cache_scheme" where
  "updateSettings_mock new s = s\<lparr>settings := new\<rparr>"

text \<open>\<open>now_iso\<close> stands for \<^verbatim>\<open>new Date().toISOString()\<close>.\<close>

definition addMessage_mock ::
  "string \<Rightarrow> string \<Rightarrow> string \<Rightarrow> ('n, 'z) cache_scheme \<Rightarrow> ('n, 'z) cache_scheme" where
  "addMessage_mock rid now_iso body s =
     (case user s of
        None \<Rightarrow> s
      | Some u \<Rightarrow>
          (let newMsg =
                 \<lparr>msg_id = rid, userId = email u, userName = name u, userRole = role u,
                  memberInfo =
                    (case memberInfo_of u (members s) of
                       None \<Rightarrow> None
                     | Some (sec, lev) \<Rightarrow> Some (JObj [(''sector'', JStr sec), (''level'', JStr lev)])),
                  content = body, timestamp = now_iso\<rparr>
           in s\<lparr>messages := messages s @ [newMsg]\<rparr>))"

definition deleteMessage_mock :: "string \<Rightarrow> ('n, 'z) cache_scheme \<Rightarrow> ('n, 'z) cache_scheme" where
  "deleteMessage_mock i s = s\<lparr>messages := filter (\<lambda>m. msg_id m \<noteq> i) (messages s)\<rparr>"

subsection \<open>Initial states\<close>

text \<open>
  The initial values of the state cells. Members of the enumerations Sector and Level
  stand by their names. \<open>MOCK_BUDGETS\<close> maps the values of ExpenseCategory, and the time
  stamp of the mock message is \<^verbatim>\<open>new Date(Date.now() - 86400000).toISOString()\<close>: both are
  arguments.
\<close>

definition default_settings :: AppSettings where
  "default_settings = \<lparr>associationName = ''A.E.U.C.A.B.DK'', currency = ''FCFA'', logoUrl = ''''\<rparr>"

definition initial_store :: "'n store" where
  "initial_store =
     \<lparr>user = None, transactions = [], members = [], budgets = [], messages = [],
      settings = default_settings, isLoading = True\<rparr>"

definition MOCK_MEMBERS :: "('n::numeral) Member list" where
  "MOCK_MEMBERS =
     [\<lparr>dossierNumber = ''0001'', ine = ''INE123456'', firstName = ''Jean'', lastName = ''Dupont'',
       dob = ''1998-05-12'', sector = ''INFO'', level = ''L2'', gender = MALE, balance = 5000,
       mb_id = ''1'', uniqueId = ''A00000000001''\<rparr>,
      \<lparr>dossierNumber = ''0002'', ine = ''INE654321'', firstName = ''Marie'', lastName = ''Curie'',
       dob = ''1999-11-07'', sector = ''ELEC'', level = ''L3'', gender = FEMALE, balance = 2500,
       mb_id = ''2'', uniqueId = ''B00000000001''\<rparr>]"

definition MOCK_BUDGETS :: "string list \<Rightarrow> int \<Rightarrow> ('n::{zero,numeral}) Budget list" where
  "MOCK_BUDGETS categories yr =
     map (\<lambda>(index, cat). \<lparr>bg_id = ''b-'' @ show_nat index, bg_category = cat,
                            allocatedAmount = (if index = 0 then 50000 else 25000),
                            spentAmount = 0, year = yr\<rparr>)
       (enumerate 0 categories)"

definition MOCK_MESSAGES :: "string \<Rightarrow> CommunityMessage list" where
  "MOCK_MESSAGES yesterday_iso =
     [\<lparr>msg_id = ''m1'', userId = ''membre@asso.com'', userName = ''Jean Dupont'',
       userRole = MEMBRE,
       memberInfo = Some (JObj [(''sector'', JStr ''INFO''), (''level'', JStr ''L2'')]),
       content = ''Salut '' @ [CHR 0xC3, CHR 0xA0] @ '' tous ! Quand aura lieu la prochaine assembl''
                 @ e_acute @ ''e g'' @ e_acute @ ''n'' @ e_acute @ ''rale ?'',
       timestamp = yesterday_iso\<rparr>]"

definition initial_cache :: "string list \<Rightarrow> int \<Rightarrow> string \<Rightarrow> ('n::{zero,numeral}) cache" where
  "initial_cache categories yr yesterday_iso =
     \<lparr>user = None, transactions = MOCK_TRANSACTIONS, members = MOCK_MEMBERS,
      budgets = MOCK_BUDGETS categories yr, messages = MOCK_MESSAGES yesterday_iso,
      settings = default_settings\<rparr>"

subsection \<open>One entry point after another\<close>

text \<open>
  \<open>and_then r f\<close> runs the entry point \<open>f\<close> in the state the run \<open>r\<close> ended in, and is \<open>r\<close>
  when \<open>r\<close> ended in an exception. \<open>stored i cols\<close> is the row the remote store returns
  for an inserted transaction: the columns sent, with the identifier it assigned.
\<close>

definition and_then :: "'n run \<Rightarrow> ('n store \<Rightarrow> 'n run) \<Rightarrow> 'n run" where
  "and_then r f =
     (case snd r of
        Inl e \<Rightarrow> r
      | Inr s \<Rightarrow> (fst r @ fst (f s), snd (f s)))"

definition stored :: "string \<Rightarrow> 'n transactions_cols \<Rightarrow> 'n transactions_row" where
  "stored i c =
     \<lparr>t_type = t_type c, t_category = t_category c, t_amount = t_amount c, t_date = t_date c,
      t_description = t_description c, performed_by = performed_by c,
      t_matricule = t_matricule c, t_function = t_function c,
      receipt_number = receipt_number c, t_status = t_status c,
      t_responsible = t_responsible c, t_signature = t_signature c,
      proof_url = proof_url c, t_id = i\<rparr>"

section \<open>Properties of the recomputation\<close>

text \<open>
  The spent amount is the left fold of \<open>+\<close> from \<open>0\<close> over the amounts of the matching
  transactions, in the order of the list. No law of addition is used: the statement
  holds for any \<open>0\<close> and \<open>+\<close>, floating-point addition included.
\<close>

lemma spent_left_fold:
  fixes ts :: "('n::{zero,plus}) Transaction list"
  shows "spent ts b =
     foldl (+) 0 (map amount
       (filter (\<lambda>t. tx_type t = EXPENSE \<and> status t = APPROVED \<and> tx_category t = bg_category b) ts))"
proof -
  have same: "(\<lambda>t::'n Transaction. tx_type t = EXPENSE \<and> tx_category t = bg_category b \<and> status t = APPROVED)
      = (\<lambda>t. tx_type t = EXPENSE \<and> status t = APPROVED \<and> tx_category t = bg_category b)"
    by (rule ext) blast
  show ?thesis
    unfolding spent_def same by (simp add: foldl_map)
qed

text \<open>
  Where addition is exact (associative, with \<open>0\<close> neutral) the left fold is the sum of
  the list in any bracketing.
\<close>

lemma foldl_plus_sum_list:
  fixes a :: "'n::monoid_add"
  shows "foldl (\<lambda>acc t. acc + f t) a xs = a + sum_list (map f xs)"
  by (induction xs arbitrary: a) (simp_all add: add.assoc)

lemma spent_sum_list:
  fixes ts :: "('n::monoid_add) Transaction list"
  shows "spent ts b =
     sum_list (map amount
       (filter (\<lambda>t. tx_type t = EXPENSE \<and> status t = APPROVED \<and> tx_category t = bg_category b) ts))"
proof -
  have same: "(\<lambda>t::'n Transaction. tx_type t = EXPENSE \<and> tx_category t = bg_category b \<and> status t = APPROVED)
      = (\<lambda>t. tx_type t = EXPENSE \<and> status t = APPROVED \<and> tx_category t = bg_category b)"
    by (rule ext) blast
  show ?thesis
    unfolding spent_def same by (simp add: foldl_plus_sum_list)
qed

lemma spent_cong_category:
  "bg_category b' = bg_category b \<Longrightarrow> spent ts b' = spent ts b"
  by (simp add: spent_def)

lemma length_recompute: "length (recompute ts bs) = length bs"
  by (simp add: recompute_def)

text \<open>
  Claim C1. For every transaction list \<open>T\<close> and budget list \<open>B\<close>, the i-th budget of the
  recomputed list has as \<open>spentAmount\<close> the sum of the amounts of the transactions of \<open>T\<close>
  that are expenses, approved and of the i-th budget's category, added from \<open>0\<close> in the
  order of \<open>T\<close> (as \<^verbatim>\<open>reduce\<close> does, and as the spec's \<^verbatim>\<open>sum(...)\<close> does); its identifier,
  category, allocated amount and year are those of the i-th budget of \<open>B\<close>, and the list
  keeps its length. The number type is any type with \<open>0\<close> and \<open>+\<close>.
\<close>

theorem recompute_spentAmount:
  fixes T :: "('n::{zero,plus}) Transaction list"
  assumes "i < length B"
  shows "length (recompute T B) = length B
    \<and> spentAmount (recompute T B ! i) =
        foldl (+) 0 (map amount
          (filter (\<lambda>t. tx_type t = EXPENSE \<and> status t = APPROVED \<and> tx_category t = bg_category (B ! i)) T))
    \<and> bg_id (recompute T B ! i) = bg_id (B ! i)
    \<and> bg_category (recompute T B ! i) = bg_category (B ! i)
    \<and> allocatedAmount (recompute T B ! i) = allocatedAmount (B ! i)
    \<and> year (recompute T B ! i) = year (B ! i)"
  using assms by (simp add: recompute_def spent_left_fold)

theorem recompute_spentAmount_witness:
  "spentAmount
     (recompute (map (\<lambda>t. t\<lparr>status := APPROVED\<rparr>) MOCK_TRANSACTIONS)
        [\<lparr>bg_id = ''b-0'', bg_category = ''Transport'', allocatedAmount = 25000,
          spentAmount = 0, year = 2024\<rparr>] ! 0) = (2000::int)"
  using recompute_spentAmount [of 0
      "[\<lparr>bg_id = ''b-0'', bg_category = ''Transport'', allocatedAmount = 25000,
          spentAmount = 0, year = 2024\<rparr>]"
      "map (\<lambda>t. t\<lparr>status := APPROVED\<rparr>) MOCK_TRANSACTIONS :: int Transaction list"]
  by (simp add: MOCK_TRANSACTIONS_def)

text \<open>
  The effect writes the recomputed list into the budgets cell and nothing else: when the
  comparison finds the two lists equal, writing would change nothing.
\<close>

lemma recompute_effect_eq:
  "recompute_effect s = s\<lparr>budgets := recompute (transactions s) (budgets s)\<rparr>"
  by (simp add: recompute_effect_def Let_def)

text \<open>
  Claim C9. The recomputation is idempotent: recomputing the recomputed budgets from the
  same transactions gives the recomputed budgets again.
\<close>

theorem recompute_idempotent:
  "recompute T (recompute T B) = recompute T B"
  by (simp add: recompute_def spent_def)

theorem recompute_idempotent_witness:
  "recompute MOCK_TRANSACTIONS
     (recompute MOCK_TRANSACTIONS (MOCK_BUDGETS [''Transport'', ''Divers''] 2024))
     = (recompute MOCK_TRANSACTIONS (MOCK_BUDGETS [''Transport'', ''Divers''] 2024) :: int Budget list)"
  using recompute_idempotent [of "MOCK_TRANSACTIONS :: int Transaction list"
      "MOCK_BUDGETS [''Transport'', ''Divers''] 2024"]
  by simp

section \<open>Properties of addTransaction\<close>

text \<open>The decimal numeral of a number has at least one digit.\<close>

lemma show_nat_nonempty: "show_nat n \<noteq> []"
  by (subst show_nat.simps) simp

lemma show_int_nonempty: "show_int i \<noteq> []"
  by (simp add: show_int_def show_nat_nonempty)

text \<open>
  Claim C5. The transaction addTransaction creates has a non-empty receipt number if and
  only if its type is INCOME, and none when its type is EXPENSE. In the remote provider
  the created transaction is the row \<open>newTx\<close> sent in the one insert request, and when the
  store answers with that row under a new identifier the transaction put at the head of
  the cache has the row's type and receipt number; in the in-memory provider it is
  \<open>newTx_mock\<close>, put at the head of the cache.
\<close>

theorem receipt_iff_income:
  "((\<exists>r. receipt_number (newTx now_rec now_sig t s) = Some r \<and> r \<noteq> []) \<longleftrightarrow> tx_type t = INCOME)
   \<and> (receipt_number (newTx now_rec now_sig t s) = None \<longleftrightarrow> tx_type t = EXPENSE)
   \<and> t_type (newTx now_rec now_sig t s) = tx_type t
   \<and> fst (addTransaction now_rec now_sig resp t s) = [Transactions_insert (newTx now_rec now_sig t s)]
   \<and> (\<exists>s'. snd (addTransaction now_rec now_sig
                  (Success [stored i (newTx now_rec now_sig t s)]) t s) = Inr s'
          \<and> tl (transactions s') = transactions s
          \<and> tx_type (hd (transactions s')) = tx_type t
          \<and> receiptNumber (hd (transactions s')) = receipt_number (newTx now_rec now_sig t s))
   \<and> ((\<exists>r. receiptNumber (newTx_mock rid now_sig now_rec t c) = Some r \<and> r \<noteq> []) \<longleftrightarrow> tx_type t = INCOME)
   \<and> (receiptNumber (newTx_mock rid now_sig now_rec t c) = None \<longleftrightarrow> tx_type t = EXPENSE)
   \<and> tx_type (newTx_mock rid now_sig now_rec t c) = tx_type t
   \<and> transactions (addTransaction_mock rid now_sig now_rec t c)
        = newTx_mock rid now_sig now_rec t c # transactions c"
  by (cases "tx_type t")
     (simp_all add: newTx_def newTx_mock_def addTransaction_def addTransaction_mock_def
        stored_def mapTransaction_def show_int_nonempty)

theorem receipt_iff_income_witness:
  "receipt_number (newTx 1700000000000 1700000000001
       (TransactionInput.truncate (MOCK_TRANSACTIONS ! 0)) (initial_store :: int store))
     = Some ''REC-1700000000000''
   \<and> tx_type (TransactionInput.truncate (MOCK_TRANSACTIONS ! 0 :: int Transaction)) = INCOME
   \<and> receipt_number (newTx 1700000000000 1700000000001
       (TransactionInput.truncate (MOCK_TRANSACTIONS ! 1)) (initial_store :: int store))
     = None
   \<and> tx_type (TransactionInput.truncate (MOCK_TRANSACTIONS ! 1 :: int Transaction)) = EXPENSE"
  using receipt_iff_income [of 1700000000000 1700000000001
      "TransactionInput.truncate (MOCK_TRANSACTIONS ! 0)" "initial_store :: int store",
      THEN conjunct1]
    receipt_iff_income [of 1700000000000 1700000000001
      "TransactionInput.truncate (MOCK_TRANSACTIONS ! 1)" "initial_store :: int store",
      THEN conjunct1]
  by (simp add: newTx_def MOCK_TRANSACTIONS_def TransactionInput.truncate_def
        show_int_def show_nat.simps digit_char_def)

text \<open>
  Claim C6. The transaction addTransaction creates has the status APPROVED when the
  session's user has the role TRESORIER, and PENDING for every other role and when there
  is no session; in both providers, and for the transaction the remote provider caches
  when the store answers with the row it was sent.
\<close>

theorem status_by_role:
  "t_status (newTx now_rec now_sig t s)
      = (if \<exists>u. user s = Some u \<and> role u = TRESORIER then APPROVED else PENDING)
   \<and> fst (addTransaction now_rec now_sig resp t s) = [Transactions_insert (newTx now_rec now_sig t s)]
   \<and> (\<exists>s'. snd (addTransaction now_rec now_sig
                  (Success [stored i (newTx now_rec now_sig t s)]) t s) = Inr s'
          \<and> tl (transactions s') = transactions s
          \<and> status (hd (transactions s'))
               = (if \<exists>u. user s = Some u \<and> role u = TRESORIER then APPROVED else PENDING))
   \<and> status (newTx_mock rid now_sig now_rec t c)
      = (if \<exists>u. user c = Some u \<and> role u = TRESORIER then APPROVED else PENDING)
   \<and> transactions (addTransaction_mock rid now_sig now_rec t c)
        = newTx_mock rid now_sig now_rec t c # transactions c"
  by (cases "user s"; cases "user c")
     (simp_all add: newTx_def newTx_mock_def addTransaction_def addTransaction_mock_def
        stored_def mapTransaction_def)

theorem status_by_role_witness:
  "t_status (newTx 1700000000000 1700000000001
       (TransactionInput.truncate (MOCK_TRANSACTIONS ! 1))
       (initial_store\<lparr>user := Some \<lparr>email = ''admin@asso.com'', name = ''Administrateur'',
                                      role = TRESORIER, memberId = None\<rparr>\<rparr> :: int store))
     = APPROVED
   \<and> t_status (newTx 1700000000000 1700000000001
       (TransactionInput.truncate (MOCK_TRANSACTIONS ! 1))
       (initial_store\<lparr>user := Some \<lparr>email = ''membre@asso.com'', name = ''Jean Dupont'',
                                      role = MEMBRE, memberId = Some ''1''\<rparr>\<rparr> :: int store))
     = PENDING
   \<and> t_status (newTx 1700000000000 1700000000001
       (TransactionInput.truncate (MOCK_TRANSACTIONS ! 1)) (initial_store :: int store))
     = PENDING"
  using status_by_role [of 1700000000000 1700000000001
      "TransactionInput.truncate (MOCK_TRANSACTIONS ! 1)"
      "initial_store\<lparr>user := Some \<lparr>email = ''admin@asso.com'', name = ''Administrateur'',
                                      role = TRESORIER, memberId = None\<rparr>\<rparr> :: int store",
      THEN conjunct1]
    status_by_role [of 1700000000000 1700000000001
      "TransactionInput.truncate (MOCK_TRANSACTIONS ! 1)"
      "initial_store\<lparr>user := Some \<lparr>email = ''membre@asso.com'', name = ''Jean Dupont'',
                                      role = MEMBRE, memberId = Some ''1''\<rparr>\<rparr> :: int store",
      THEN conjunct1]
    status_by_role [of 1700000000000 1700000000001
      "TransactionInput.truncate (MOCK_TRANSACTIONS ! 1)" "initial_store :: int store",
      THEN conjunct1]
  by (simp add: initial_store_def)

section \<open>Properties of addMessage\<close>

text \<open>
  Claim C10. Without a session (the user is null) addMessage issues no request and ends
  in the state it started from, every cell unchanged; so does the in-memory provider's
  addMessage.
\<close>

theorem addMessage_no_session:
  assumes "user s = None" and "user c = None"
  shows "addMessage resp body s = ([], Inr s) \<and> addMessage_mock rid now_iso body c = c"
  using assms by (simp add: addMessage_def addMessage_mock_def)

theorem addMessage_no_session_witness:
  "addMessage (Success ()) ''Bonjour'' (initial_store :: int store) = ([], Inr initial_store)
   \<and> addMessage_mock ''k3j9x0q2a'' ''2024-01-01T00:00:00.000Z'' ''Bonjour''
        (initial_cache [''Transport''] 2024 ''2023-12-31T00:00:00.000Z'' :: int cache)
      = initial_cache [''Transport''] 2024 ''2023-12-31T00:00:00.000Z''"
  using addMessage_no_session [of "initial_store :: int store"
      "initial_cache [''Transport''] 2024 ''2023-12-31T00:00:00.000Z'' :: int cache"
      "Success ()" "''Bonjour''" "''k3j9x0q2a''" "''2024-01-01T00:00:00.000Z''"]
  by (simp add: initial_store_def initial_cache_def)

section \<open>Properties of approveTransaction and rejectTransaction\<close>

text \<open>
  Claim C2, as amended. When the remote update reports no error, approveTransaction sets
  the status of every cached transaction that has the given identifier to APPROVED,
  whatever its status was, and rejectTransaction sets it to REJECTED likewise; a
  transaction with another identifier keeps its status, and the list keeps its length and
  its identifiers. So a transaction that is APPROVED already stays APPROVED under
  approveTransaction. When the remote update reports an error the state is unchanged.
  The in-memory provider's two entry points write the same statuses.
\<close>

theorem approve_reject_any_status:
  assumes "k < length (transactions s)"
  shows
    "(\<exists>s'. approveTransaction (Success u) i s = ([Transactions_update_status APPROVED i], Inr s')
         \<and> length (transactions s') = length (transactions s)
         \<and> tx_id (transactions s' ! k) = tx_id (transactions s ! k)
         \<and> status (transactions s' ! k)
             = (if tx_id (transactions s ! k) = i then APPROVED else status (transactions s ! k))
         \<and> (status (transactions s ! k) = APPROVED \<longrightarrow> status (transactions s' ! k) = APPROVED))
     \<and> (\<exists>s'. rejectTransaction (Success u) i s = ([Transactions_update_status REJECTED i], Inr s')
         \<and> length (transactions s') = length (transactions s)
         \<and> tx_id (transactions s' ! k) = tx_id (transactions s ! k)
         \<and> status (transactions s' ! k)
             = (if tx_id (transactions s ! k) = i then REJECTED else status (transactions s ! k)))
     \<and> approveTransaction (Failure err) i s = ([Transactions_update_status APPROVED i], Inr s)
     \<and> rejectTransaction (Failure err) i s = ([Transactions_update_status REJECTED i], Inr s)
     \<and> length (transactions (approveTransaction_mock i s)) = length (transactions s)
     \<and> status (transactions (approveTransaction_mock i s) ! k)
         = (if tx_id (transactions s ! k) = i then APPROVED else status (transactions s ! k))
     \<and> length (transactions (rejectTransaction_mock i s)) = length (transactions s)
     \<and> status (transactions (rejectTransaction_mock i s) ! k)
         = (if tx_id (transactions s ! k) = i then REJECTED else status (transactions s ! k))"
  using assms
  by (simp add: approveTransaction_def rejectTransaction_def approveTransaction_mock_def
        rejectTransaction_mock_def)

theorem approve_reject_any_status_witness:
  "map_sum id (map status \<circ> transactions)
      (snd (approveTransaction (Success ()) ''t2''
             (initial_store\<lparr>transactions := MOCK_TRANSACTIONS\<rparr> :: int store)))
     = Inr [APPROVED, APPROVED]
   \<and> map_sum id (map status \<circ> transactions)
      (snd (rejectTransaction (Success ()) ''t2''
             (initial_store\<lparr>transactions := MOCK_TRANSACTIONS\<rparr> :: int store)))
     = Inr [APPROVED, REJECTED]"
  using approve_reject_any_status [of 1 "initial_store\<lparr>transactions := MOCK_TRANSACTIONS\<rparr> :: int store"
      "()" "''t2''" "''x''"]
  by (simp add: approveTransaction_def rejectTransaction_def initial_store_def
        MOCK_TRANSACTIONS_def)

text \<open>
  The claim as stated fails. With the two mock transactions in the cache (t1 APPROVED, t2
  PENDING): rejecting t2 and then approving it leaves it APPROVED, and rejecting t1 makes
  the approved transaction REJECTED; in both providers.
\<close>

theorem approve_rejected_counterexample:
  "map_sum id (map status \<circ> transactions)
      (snd (rejectTransaction (Success ()) ''t2''
             (initial_store\<lparr>transactions := MOCK_TRANSACTIONS\<rparr> :: int store)))
     = Inr [APPROVED, REJECTED]
   \<and> map_sum id (map status \<circ> transactions)
      (snd (and_then
             (rejectTransaction (Success ()) ''t2''
                (initial_store\<lparr>transactions := MOCK_TRANSACTIONS\<rparr> :: int store))
             (approveTransaction (Success ()) ''t2'')))
     = Inr [APPROVED, APPROVED]
   \<and> map_sum id (map status \<circ> transactions)
      (snd (rejectTransaction (Success ()) ''t1''
             (initial_store\<lparr>transactions := MOCK_TRANSACTIONS\<rparr> :: int store)))
     = Inr [REJECTED, PENDING]
   \<and> map status (transactions
        (approveTransaction_mock ''t2''
          (rejectTransaction_mock ''t2''
             (initial_cache [''Transport''] 2024 ''2023-12-31T00:00:00.000Z'' :: int cache))))
     = [APPROVED, APPROVED]
   \<and> map status (transactions
        (rejectTransaction_mock ''t1''
             (initial_cache [''Transport''] 2024 ''2023-12-31T00:00:00.000Z'' :: int cache)))
     = [REJECTED, PENDING]"
  by (simp add: approveTransaction_def rejectTransaction_def approveTransaction_mock_def
        rejectTransaction_mock_def and_then_def initial_store_def initial_cache_def
        MOCK_TRANSACTIONS_def)

section \<open>Remote errors and the cache\<close>

text \<open>
  The entry points that read the error (or the data) of the response leave the state as
  it was when the remote call reports an error.
\<close>

lemma failure_leaves_cache:
  "snd (approveTransaction (Failure err) i s) = Inr s"
  "snd (rejectTransaction (Failure err) i s) = Inr s"
  "snd (deleteTransaction (Failure err) i s) = Inr s"
  "snd (addTransaction now_rec now_sig (Failure err) t s) = Inr s"
  "snd (addMember rand (Failure err) m s) = Inr s"
  "snd (deleteMember (Failure err) i s) = Inr s"
  "snd (addMessage (Failure err) body s) = Inr s"
  "snd (deleteMessage (Failure err) i s) = Inr s"
  "snd (login (Failure err) em pass s) = (False, s)"
  "startsWith i ''b-'' \<Longrightarrow> snd (updateBudget yr (Failure err) i amt cat z) = Inr z"
  by (simp_all add: approveTransaction_def rejectTransaction_def deleteTransaction_def
        addTransaction_def addMember_def deleteMember_def addMessage_def deleteMessage_def
        login_def updateBudget_def Let_def split: option.split)

text \<open>
  Claim C3 does not hold of the code: updateSettings and the update branch of
  updateBudget never read the response. With the remote update answering with an error,
  updateSettings still writes the new settings, and updateBudget on the persisted
  identifier 7 still writes the new allocated amount.
\<close>

theorem failed_update_written_to_cache:
  "snd (updateSettings (Failure ''fetch failed'')
          \<lparr>associationName = ''Amicale'', currency = ''EUR'', logoUrl = ''''\<rparr>
          (initial_store :: int store))
     = Inr (initial_store\<lparr>settings :=
             \<lparr>associationName = ''Amicale'', currency = ''EUR'', logoUrl = ''''\<rparr>\<rparr>)
   \<and> settings (initial_store :: int store)
       \<noteq> \<lparr>associationName = ''Amicale'', currency = ''EUR'', logoUrl = ''''\<rparr>
   \<and> snd (updateBudget 2024 (Failure ''fetch failed'') ''7'' 90000 ''Transport''
          (initial_store\<lparr>budgets :=
             [\<lparr>bg_id = ''7'', bg_category = ''Transport'', allocatedAmount = 25000,
               spentAmount = 0, year = 2024\<rparr>]\<rparr> :: int store))
     = Inr (initial_store\<lparr>budgets :=
             [\<lparr>bg_id = ''7'', bg_category = ''Transport'', allocatedAmount = 90000,
               spentAmount = 0, year = 2024\<rparr>]\<rparr>)"
  by (simp add: updateSettings_def updateBudget_def startsWith_def initial_store_def
        default_settings_def)

section \<open>Properties of login\<close>

text \<open>
  The answer of the remote store to the lookup: a row it answers with is a row of the
  collection with the given email and password, and it answers with an error when no row
  has both.
\<close>

lemma users_select_single_Success:
  "users_select_single tbl em pass = Success d \<Longrightarrow>
     d \<in> set tbl \<and> u_email d = em \<and> password d = pass"
proof -
  assume a: "users_select_single tbl em pass = Success d"
  then have "filter (\<lambda>u. u_email u = em \<and> password u = pass) tbl = [d]"
    by (auto simp add: users_select_single_def split: list.splits)
  then have "d \<in> set (filter (\<lambda>u. u_email u = em \<and> password u = pass) tbl)"
    by simp
  then show ?thesis by simp
qed

lemma users_select_single_no_match:
  "\<forall>u \<in> set tbl. \<not> (u_email u = em \<and> password u = pass) \<Longrightarrow>
     users_select_single tbl em pass = Failure ''PGRST116''"
proof -
  assume "\<forall>u \<in> set tbl. \<not> (u_email u = em \<and> password u = pass)"
  then have "filter (\<lambda>u. u_email u = em \<and> password u = pass) tbl = []"
    by (simp add: filter_empty_conv)
  then show ?thesis by (simp add: users_select_single_def)
qed

text \<open>
  Claim C7, as amended. The remote provider's login issues the one lookup; it returns
  true exactly when the lookup resolves to a row, and then the session is the principal
  built from that row; for every other outcome of the lookup (an error, a rejection) it
  returns false and leaves the state as it was. Against a users collection, a true result
  means that a row with exactly the given email and password is stored, and when no row
  has both the result is false with the state unchanged. The in-memory provider's login
  returns true exactly for the administrator's email with the administrator's secret and
  for the two demo emails president@asso.com and membre@asso.com with any secret; when it
  returns false the state is unchanged.
\<close>

theorem login_outcome:
  "fst (login resp em pass s) = [Users_select_single em pass]
   \<and> (fst (snd (login resp em pass s)) \<longleftrightarrow> (\<exists>d. resp = Success d))
   \<and> (\<forall>d. resp = Success d \<longrightarrow>
         snd (login resp em pass s)
           = (True, s\<lparr>user := Some \<lparr>email = u_email d, name = u_name d, role = u_role d,
                                      memberId = member_id d\<rparr>\<rparr>))
   \<and> ((\<forall>d. resp \<noteq> Success d) \<longrightarrow> snd (login resp em pass s) = (False, s))
   \<and> (fst (snd (login (users_select_single tbl em pass) em pass s)) \<longrightarrow>
         (\<exists>d \<in> set tbl. u_email d = em \<and> password d = pass
            \<and> snd (login (users_select_single tbl em pass) em pass s)
                = (True, s\<lparr>user := Some \<lparr>email = u_email d, name = u_name d, role = u_role d,
                                           memberId = member_id d\<rparr>\<rparr>)))
   \<and> ((\<forall>u \<in> set tbl. \<not> (u_email u = em \<and> password u = pass)) \<longrightarrow>
         snd (login (users_select_single tbl em pass) em pass s) = (False, s))
   \<and> (fst (login_mock ADMIN_EMAIL ADMIN_PASS em pass s) \<longleftrightarrow>
         (em = ADMIN_EMAIL \<and> pass = ADMIN_PASS) \<or> em = ''president@asso.com''
           \<or> em = ''membre@asso.com'')
   \<and> (\<not> fst (login_mock ADMIN_EMAIL ADMIN_PASS em pass s) \<longrightarrow>
         snd (login_mock ADMIN_EMAIL ADMIN_PASS em pass s) = s)"
proof -
  have a: "fst (login resp em pass s) = [Users_select_single em pass]"
    by (simp add: login_def)
  have b: "fst (snd (login resp em pass s)) \<longleftrightarrow> (\<exists>d. resp = Success d)"
    by (cases resp) (simp_all add: login_def)
  have c: "\<forall>d. resp = Success d \<longrightarrow>
         snd (login resp em pass s)
           = (True, s\<lparr>user := Some \<lparr>email = u_email d, name = u_name d, role = u_role d,
                                      memberId = member_id d\<rparr>\<rparr>)"
    by (simp add: login_def)
  have d: "(\<forall>d. resp \<noteq> Success d) \<longrightarrow> snd (login resp em pass s) = (False, s)"
    by (cases resp) (simp_all add: login_def)
  have e: "fst (snd (login (users_select_single tbl em pass) em pass s)) \<longrightarrow>
         (\<exists>d \<in> set tbl. u_email d = em \<and> password d = pass
            \<and> snd (login (users_select_single tbl em pass) em pass s)
                = (True, s\<lparr>user := Some \<lparr>email = u_email d, name = u_name d, role = u_role d,
                                           memberId = member_id d\<rparr>\<rparr>))"
  proof
    assume ok: "fst (snd (login (users_select_single tbl em pass) em pass s))"
    then obtain d where r: "users_select_single tbl em pass = Success d"
      by (cases "users_select_single tbl em pass") (simp_all add: login_def)
    from users_select_single_Success [OF r] r
    show "\<exists>d \<in> set tbl. u_email d = em \<and> password d = pass
            \<and> snd (login (users_select_single tbl em pass) em pass s)
                = (True, s\<lparr>user := Some \<lparr>email = u_email d, name = u_name d, role = u_role d,
                                           memberId = member_id d\<rparr>\<rparr>)"
      by (intro bexI [of _ d]) (simp_all add: login_def)
  qed
  have f: "(\<forall>u \<in> set tbl. \<not> (u_email u = em \<and> password u = pass)) \<longrightarrow>
         snd (login (users_select_single tbl em pass) em pass s) = (False, s)"
    using users_select_single_no_match [of tbl em pass] by (simp add: login_def)
  have g: "fst (login_mock ADMIN_EMAIL ADMIN_PASS em pass s) \<longleftrightarrow>
         (em = ADMIN_EMAIL \<and> pass = ADMIN_PASS) \<or> em = ''president@asso.com''
           \<or> em = ''membre@asso.com''"
    by (simp add: login_mock_def)
  have h: "\<not> fst (login_mock ADMIN_EMAIL ADMIN_PASS em pass s) \<longrightarrow>
         snd (login_mock ADMIN_EMAIL ADMIN_PASS em pass s) = s"
    by (simp add: login_mock_def)
  from a b c d e f g h show ?thesis by blast
qed

theorem login_outcome_witness:
  "snd (login (users_select_single
                 [\<lparr>u_email = ''tresorier@asso.com'', password = ''s3cret'', u_name = ''Awa'',
                   u_role = TRESORIER, member_id = None\<rparr>]
                 ''tresorier@asso.com'' ''s3cret'')
          ''tresorier@asso.com'' ''s3cret'' (initial_store :: int store))
     = (True, initial_store\<lparr>user := Some \<lparr>email = ''tresorier@asso.com'', name = ''Awa'',
                                              role = TRESORIER, memberId = None\<rparr>\<rparr>)
   \<and> snd (login (users_select_single
                 [\<lparr>u_email = ''tresorier@asso.com'', password = ''s3cret'', u_name = ''Awa'',
                   u_role = TRESORIER, member_id = None\<rparr>]
                 ''tresorier@asso.com'' ''guess'')
          ''tresorier@asso.com'' ''guess'' (initial_store :: int store))
     = (False, initial_store)
   \<and> snd (login Rejected ''tresorier@asso.com'' ''s3cret'' (initial_store :: int store))
     = (False, initial_store)
   \<and> login_mock ''admin@asso.com'' ''admin123'' ''inconnu@asso.com'' ''x''
        (initial_store :: int store)
     = (False, initial_store)"
  using login_outcome [of
      "users_select_single
         [\<lparr>u_email = ''tresorier@asso.com'', password = ''s3cret'', u_name = ''Awa'',
           u_role = TRESORIER, member_id = None\<rparr>] ''tresorier@asso.com'' ''s3cret''"
      "''tresorier@asso.com''" "''s3cret''" "initial_store :: int store"
      "[\<lparr>u_email = ''tresorier@asso.com'', password = ''s3cret'', u_name = ''Awa'',
           u_role = TRESORIER, member_id = None\<rparr>]"
      "''admin@asso.com''" "''admin123''"]
  by (simp add: users_select_single_def login_def login_mock_def)

text \<open>
  The claim as stated fails in the in-memory provider: the demo president logs in with a
  secret that is not checked, whatever the administrator's email and secret are.
\<close>

theorem login_mock_counterexample:
  "login_mock ''admin@asso.com'' ''admin123'' ''president@asso.com'' ''not the secret''
     (initial_cache [''Transport''] 2024 ''2023-12-31T00:00:00.000Z'' :: int cache)
   = (True, (initial_cache [''Transport''] 2024 ''2023-12-31T00:00:00.000Z'')
              \<lparr>user := Some \<lparr>email = ''president@asso.com'',
                              name = ''Pr'' @ e_acute @ ''sident Association'',
                              role = PRESIDENT, memberId = None\<rparr>\<rparr>)
   \<and> user (initial_cache [''Transport''] 2024 ''2023-12-31T00:00:00.000Z'' :: int cache) = None"
  by (simp add: login_mock_def initial_cache_def)

lemma login_mock_demo_any_secret:
  "fst (login_mock ADMIN_EMAIL ADMIN_PASS ''president@asso.com'' pass c)"
  "fst (login_mock ADMIN_EMAIL ADMIN_PASS ''membre@asso.com'' pass c)"
  by (simp_all add: login_mock_def)

section \<open>Properties of updateBudget\<close>

text \<open>Every default budget fetchData builds carries the placeholder prefix.\<close>

lemma default_budgets_placeholder:
  "b \<in> set (default_budgets categories yr) \<Longrightarrow> startsWith (bg_id b) ''b-''"
  by (auto simp add: default_budgets_def startsWith_def)

text \<open>
  Claim C8. The prefix test on the identifier alone decides what updateBudget does,
  whatever the state and the response. With the prefix \<^verbatim>\<open>b-\<close> it issues one insert, and
  when the store answers with the inserted row every cache entry with that identifier is
  replaced by the mapped row: its identifier is the one the store assigned, which does
  not carry the prefix when the store's does not; the other entries are untouched.
  Without the prefix it issues one update of the allocated amount, and the cache keeps
  every identifier, the entries with the given identifier taking the new amount.
\<close>

theorem updateBudget_dispatch:
  "(startsWith i ''b-'' \<longrightarrow>
      fst (updateBudget yr resp i amt cat s)
        = [Budgets_insert \<lparr>b_category = cat, allocated_amount = amt, b_year = yr\<rparr>]
      \<and> (\<forall>d ds. resp = Success (d # ds) \<longrightarrow>
            (\<exists>s'. snd (updateBudget yr resp i amt cat s) = Inr s'
               \<and> length (budgets s') = length (budgets s)
               \<and> (\<forall>k < length (budgets s).
                     budgets s' ! k = (if bg_id (budgets s ! k) = i then mapBudget d
                                       else budgets s ! k))
               \<and> (\<forall>k < length (budgets s). bg_id (budgets s ! k) = i \<longrightarrow>
                     bg_id (budgets s' ! k) = b_id d
                     \<and> (\<not> startsWith (b_id d) ''b-'' \<longrightarrow>
                          \<not> startsWith (bg_id (budgets s' ! k)) ''b-'')))))
   \<and> (\<not> startsWith i ''b-'' \<longrightarrow>
      fst (updateBudget yr resp i amt cat s) = [Budgets_update_allocated amt i]
      \<and> (resp \<noteq> Rejected \<longrightarrow>
            (\<exists>s'. snd (updateBudget yr resp i amt cat s) = Inr s'
               \<and> map bg_id (budgets s') = map bg_id (budgets s)
               \<and> (\<forall>k < length (budgets s).
                     budgets s' ! k
                       = (if bg_id (budgets s ! k) = i
                          then (budgets s ! k)\<lparr>allocatedAmount := amt\<rparr>
                          else budgets s ! k)))))"
proof -
  have ins: "startsWith i ''b-'' \<Longrightarrow>
      fst (updateBudget yr resp i amt cat s)
        = [Budgets_insert \<lparr>b_category = cat, allocated_amount = amt, b_year = yr\<rparr>]"
    by (simp add: updateBudget_def)
  have ins_ok: "\<And>d ds. startsWith i ''b-'' \<Longrightarrow> resp = Success (d # ds) \<Longrightarrow>
      snd (updateBudget yr resp i amt cat s)
        = Inr (s\<lparr>budgets := map (\<lambda>b. if bg_id b = i then mapBudget d else b) (budgets s)\<rparr>)"
    by (simp add: updateBudget_def)
  have upd: "\<not> startsWith i ''b-'' \<Longrightarrow>
      fst (updateBudget yr resp i amt cat s) = [Budgets_update_allocated amt i]"
    by (simp add: updateBudget_def)
  have upd_ok: "\<not> startsWith i ''b-'' \<Longrightarrow> resp \<noteq> Rejected \<Longrightarrow>
      snd (updateBudget yr resp i amt cat s)
        = Inr (s\<lparr>budgets := map (\<lambda>b. if bg_id b = i then b\<lparr>allocatedAmount := amt\<rparr> else b)
                               (budgets s)\<rparr>)"
    by (cases resp) (simp_all add: updateBudget_def)
  have ids: "map bg_id (map (\<lambda>b. if bg_id b = i then b\<lparr>allocatedAmount := amt\<rparr> else b) bs)
      = map bg_id bs" for bs :: "'a Budget list"
    by (induction bs) auto
  show ?thesis
    using ins ins_ok upd upd_ok ids
    by (auto simp add: mapBudget_def)
qed

theorem updateBudget_dispatch_witness:
  "updateBudget 2024
      (Success [\<lparr>b_category = ''Transport'', allocated_amount = 30000, b_year = 2024,
                 b_id = ''41''\<rparr>])
      ''b-0'' 30000 ''Transport''
      (initial_store\<lparr>budgets := default_budgets [''Transport''] 2024\<rparr> :: int store)
    = ([Budgets_insert \<lparr>b_category = ''Transport'', allocated_amount = 30000, b_year = 2024\<rparr>],
       Inr (initial_store\<lparr>budgets :=
              [\<lparr>bg_id = ''41'', bg_category = ''Transport'', allocatedAmount = 30000,
                spentAmount = 0, year = 2024\<rparr>]\<rparr>))
   \<and> updateBudget 2024 (Success []) ''41'' 45000 ''Transport''
      (initial_store\<lparr>budgets :=
              [\<lparr>bg_id = ''41'', bg_category = ''Transport'', allocatedAmount = 30000,
                spentAmount = 0, year = 2024\<rparr>]\<rparr> :: int store)
    = ([Budgets_update_allocated 45000 ''41''],
       Inr (initial_store\<lparr>budgets :=
              [\<lparr>bg_id = ''41'', bg_category = ''Transport'', allocatedAmount = 45000,
                spentAmount = 0, year = 2024\<rparr>]\<rparr>))"
  using updateBudget_dispatch [where i = "''b-0''" and yr = 2024 and amt = 30000
      and cat = "''Transport''"
      and resp = "Success [\<lparr>b_category = ''Transport'', allocated_amount = 30000, b_year = 2024,
                 b_id = ''41''\<rparr>]"
      and s = "initial_store\<lparr>budgets := default_budgets [''Transport''] 2024\<rparr> :: int store"]
    updateBudget_dispatch [where i = "''41''" and yr = 2024 and amt = 45000
      and cat = "''Transport''" and resp = "Success []"
      and s = "initial_store\<lparr>budgets :=
              [\<lparr>bg_id = ''41'', bg_category = ''Transport'', allocatedAmount = 30000,
                spentAmount = 0, year = 2024\<rparr>]\<rparr> :: int store"]
  by (simp add: updateBudget_def startsWith_def default_budgets_def show_nat.simps
        digit_char_def mapBudget_def parseFloat_def initial_store_def)

section \<open>Properties of mapMessage\<close>

text \<open>
  Two texts under \<open>JSON_parse\<close>: an opening brace alone is outside the grammar, and what
  addMessage writes for a member's sector and level parses back to the object.
\<close>

lemma JSON_parse_open_brace: "JSON_parse ''{'' = Inl SyntaxError"
  by code_simp

lemma JSON_parse_memberInfo:
  "JSON_parse (stringify_memberInfo ''INFO'' ''L2'')
     = Inr (JObj [(''sector'', JStr ''INFO''), (''level'', JStr ''L2'')])"
  by code_simp

lemma stringify_memberInfo_nonempty: "stringify_memberInfo sec lev \<noteq> []"
  by (simp add: stringify_memberInfo_def)

text \<open>
  Claim C4, as amended. mapMessage maps a null \<^verbatim>\<open>member_info_json\<close>, and every other
  value that counts as false (the empty string among them), to a message whose memberInfo
  is undefined, without throwing. A non-empty string is handed to \<^verbatim>\<open>JSON.parse\<close>: when the
  parse throws, mapMessage throws the same exception, as nothing catches it; when it
  returns a value, that value is the memberInfo. Any other value that counts as true is
  the memberInfo as it is. This holds for every parser.
\<close>

theorem mapMessage_memberInfo:
  "(\<not> truthy (member_info_json m) \<longrightarrow>
      (\<exists>msg. mapMessage parse m = Inr msg \<and> memberInfo msg = None))
   \<and> (member_info_json m = JNull \<longrightarrow>
      (\<exists>msg. mapMessage parse m = Inr msg \<and> memberInfo msg = None))
   \<and> (\<forall>str e. member_info_json m = JStr str \<and> str \<noteq> [] \<and> parse str = Inl e \<longrightarrow>
         mapMessage parse m = Inl e)
   \<and> (\<forall>str v. member_info_json m = JStr str \<and> str \<noteq> [] \<and> parse str = Inr v \<longrightarrow>
         (\<exists>msg. mapMessage parse m = Inr msg \<and> memberInfo msg = Some v))
   \<and> (truthy (member_info_json m) \<and> (\<forall>str. member_info_json m \<noteq> JStr str) \<longrightarrow>
         (\<exists>msg. mapMessage parse m = Inr msg \<and> memberInfo msg = Some (member_info_json m)))"
  by (cases "member_info_json m") (simp_all add: mapMessage_def Let_def)

theorem mapMessage_memberInfo_witness:
  "mapMessage JSON_parse
       \<lparr>user_id = ''membre@asso.com'', user_name = ''Jean Dupont'', user_role = MEMBRE,
        member_info_json = JNull, c_content = ''Salut'', c_id = ''m2'',
        created_at = ''2024-01-01T00:00:00.000Z''\<rparr>
     = Inr \<lparr>msg_id = ''m2'', userId = ''membre@asso.com'', userName = ''Jean Dupont'',
            userRole = MEMBRE, memberInfo = None, content = ''Salut'',
            timestamp = ''2024-01-01T00:00:00.000Z''\<rparr>
   \<and> mapMessage JSON_parse
       \<lparr>user_id = ''membre@asso.com'', user_name = ''Jean Dupont'', user_role = MEMBRE,
        member_info_json = JStr ''{'', c_content = ''Salut'', c_id = ''m2'',
        created_at = ''2024-01-01T00:00:00.000Z''\<rparr>
     = Inl SyntaxError
   \<and> mapMessage JSON_parse
       \<lparr>user_id = ''membre@asso.com'', user_name = ''Jean Dupont'', user_role = MEMBRE,
        member_info_json = JStr (stringify_memberInfo ''INFO'' ''L2''), c_content = ''Salut'',
        c_id = ''m2'', created_at = ''2024-01-01T00:00:00.000Z''\<rparr>
     = Inr \<lparr>msg_id = ''m2'', userId = ''membre@asso.com'', userName = ''Jean Dupont'',
            userRole = MEMBRE,
            memberInfo = Some (JObj [(''sector'', JStr ''INFO''), (''level'', JStr ''L2'')]),
            content = ''Salut'', timestamp = ''2024-01-01T00:00:00.000Z''\<rparr>"
  using mapMessage_memberInfo [where parse = JSON_parse and m =
       "\<lparr>user_id = ''membre@asso.com'', user_name = ''Jean Dupont'', user_role = MEMBRE,
        member_info_json = JNull, c_content = ''Salut'', c_id = ''m2'',
        created_at = ''2024-01-01T00:00:00.000Z''\<rparr>"]
    mapMessage_memberInfo [where parse = JSON_parse and m =
       "\<lparr>user_id = ''membre@asso.com'', user_name = ''Jean Dupont'', user_role = MEMBRE,
        member_info_json = JStr ''{'', c_content = ''Salut'', c_id = ''m2'',
        created_at = ''2024-01-01T00:00:00.000Z''\<rparr>"]
    mapMessage_memberInfo [where parse = JSON_parse and m =
       "\<lparr>user_id = ''membre@asso.com'', user_name = ''Jean Dupont'', user_role = MEMBRE,
        member_info_json = JStr (stringify_memberInfo ''INFO'' ''L2''), c_content = ''Salut'',
        c_id = ''m2'', created_at = ''2024-01-01T00:00:00.000Z''\<rparr>"]
  by (simp add: mapMessage_def JSON_parse_open_brace JSON_parse_memberInfo
        stringify_memberInfo_nonempty)

text \<open>
  The claim as stated fails: for the row whose \<^verbatim>\<open>member_info_json\<close> is the malformed text
  of one opening brace, mapMessage ends in the SyntaxError.
\<close>

theorem mapMessage_malformed_counterexample:
  "JSON_parse ''{'' = Inl SyntaxError
   \<and> mapMessage JSON_parse
       \<lparr>user_id = ''membre@asso.com'', user_name = ''Jean Dupont'', user_role = MEMBRE,
        member_info_json = JStr ''{'', c_content = ''Salut'', c_id = ''m2'',
        created_at = ''2024-01-01T00:00:00.000Z''\<rparr>
     = Inl SyntaxError"
  by (simp add: mapMessage_def JSON_parse_open_brace)

text \<open>
  What the exception costs where mapMessage is called. The change-stream handler ends in
  it. In fetchData one row that cannot be mapped ends the mapping of the whole batch:
  the \<^verbatim>\<open>catch\<close> is reached with the messages, the settings and the budgets not yet written.
\<close>

lemma map_messages_throws:
  "m \<in> set ms \<Longrightarrow> mapMessage parse m = Inl e \<Longrightarrow> \<exists>e'. map_messages parse ms = Inl e'"
  by (induction ms) (auto split: sum.splits)

lemma on_insert_throws:
  "mapMessage parse m = Inl e \<Longrightarrow> on_insert parse m s = Inl e"
  by (simp add: on_insert_def)

lemma fetchData_malformed_message:
  assumes "m \<in> set rows" and "mapMessage parse m = Inl e"
  shows "messages (snd (fetchData categories yr parse (Success ms) (Success ts) (Success bs)
                          (Success rows) (Success ss) s)) = messages s
       \<and> budgets (snd (fetchData categories yr parse (Success ms) (Success ts) (Success bs)
                          (Success rows) (Success ss) s)) = budgets s
       \<and> settings (snd (fetchData categories yr parse (Success ms) (Success ts) (Success bs)
                          (Success rows) (Success ss) s)) = settings s"
proof -
  from map_messages_throws [OF assms] obtain e' where "map_messages parse rows = Inl e'" ..
  then show ?thesis
    by (simp add: fetchData_def is_rejected_def Let_def)
qed

end
